theory Spec2Isabelle
  imports Complex_Main
begin

section \<open>JavaScript values\<close>

text \<open>
  The connector \<^verbatim>\<open>src/js/stronghold.js\<close> works on decoded JSON and on plain
  JavaScript objects. A number is a \<open>jsnum\<close>: \<open>NaN\<close>, an infinity, or a finite
  value, which is represented by the rational it denotes (the rounding of IEEE doubles
  and the sign of zero are outside the model). An object is the list of its own
  properties in insertion order; a key is looked up at its first occurrence.
\<close>

datatype jsnum = NaN | PosInf | NegInf | Fin rat

datatype jsval =
    JUndefined
  | JNull
  | JBool bool
  | JNum jsnum
  | JStr string
  | JArr "jsval list"
  | JObj "(string \<times> jsval) list"

type_synonym dict = "(string \<times> jsval) list"

text \<open>The error classes the file imports from \<^verbatim>\<open>./base/errors\<close>, JavaScript's own
  \<open>TypeError\<close>, the parse failure of the specification (section 7), and
  \<open>StringObject\<close> for a thrown value that is no error but a String object.\<close>

datatype error_kind =
    InvalidNonce
  | AuthenticationError
  | AccountSuspended
  | InsufficientFunds
  | ExchangeError
  | ArgumentsRequired
  | NotSupported
  | TypeError
  | ParseFailure
  | StringObject

text \<open>A thrown exception: its class and its message.\<close>

datatype exn = Exn error_kind string

text \<open>Truthiness, as \<^verbatim>\<open>if (x)\<close> and \<^verbatim>\<open>!x\<close> read a value.\<close>

fun truthy :: "jsval \<Rightarrow> bool" where
  "truthy JUndefined = False"
| "truthy JNull = False"
| "truthy (JBool b) = b"
| "truthy (JNum n) = (n \<noteq> NaN \<and> n \<noteq> Fin 0)"
| "truthy (JStr s) = (s \<noteq> [])"
| "truthy (JArr xs) = True"
| "truthy (JObj fs) = True"

text \<open>The binary \<^verbatim>\<open>-\<close> on numbers.\<close>

fun num_minus :: "jsnum \<Rightarrow> jsnum \<Rightarrow> jsnum" where
  "num_minus NaN y = NaN"
| "num_minus x NaN = NaN"
| "num_minus (Fin a) (Fin b) = Fin (a - b)"
| "num_minus (Fin a) PosInf = NegInf"
| "num_minus (Fin a) NegInf = PosInf"
| "num_minus PosInf PosInf = NaN"
| "num_minus PosInf y = PosInf"
| "num_minus NegInf NegInf = NaN"
| "num_minus NegInf y = NegInf"

text \<open>A local that holds a number or \<^verbatim>\<open>undefined\<close> is a \<open>jsnum option\<close>.
  In an arithmetic operand \<^verbatim>\<open>undefined\<close> converts to \<open>NaN\<close>.\<close>

definition to_number :: "jsnum option \<Rightarrow> jsnum" where
  "to_number v = (case v of None \<Rightarrow> NaN | Some n \<Rightarrow> n)"

definition js_minus :: "jsnum option \<Rightarrow> jsnum option \<Rightarrow> jsnum" where
  "js_minus x y = num_minus (to_number x) (to_number y)"

text \<open>The comparison \<^verbatim>\<open>==\<close> of two numbers: \<open>NaN\<close> equals nothing, itself included.\<close>

definition num_equal :: "jsnum \<Rightarrow> jsnum \<Rightarrow> bool" where
  "num_equal x y = (x \<noteq> NaN \<and> y \<noteq> NaN \<and> x = y)"

definition num_or_undefined :: "jsnum option \<Rightarrow> jsval" where
  "num_or_undefined v = (case v of None \<Rightarrow> JUndefined | Some n \<Rightarrow> JNum n)"

subsection \<open>Property access\<close>

text \<open>\<^verbatim>\<open>o[k]\<close> for a literal name \<open>k\<close>: reading a property of \<^verbatim>\<open>undefined\<close> or
  \<^verbatim>\<open>null\<close> throws a \<open>TypeError\<close>; a missing property reads as \<^verbatim>\<open>undefined\<close>.
  The names the connector reads (\<^verbatim>\<open>'maker'\<close>, \<^verbatim>\<open>'symbol'\<close>, \<^verbatim>\<open>'assetId'\<close>) are
  no properties of arrays, strings, numbers or booleans.\<close>

definition lookup :: "dict \<Rightarrow> string \<Rightarrow> jsval" where
  "lookup fs k = (case map_of fs k of None \<Rightarrow> JUndefined | Some v \<Rightarrow> v)"

fun js_get :: "jsval \<Rightarrow> string \<Rightarrow> exn + jsval" where
  "js_get JUndefined k = Inl (Exn TypeError (''Cannot read property '' @ k @ '' of undefined''))"
| "js_get JNull k = Inl (Exn TypeError (''Cannot read property '' @ k @ '' of null''))"
| "js_get (JObj fs) k = Inr (lookup fs k)"
| "js_get v k = Inr JUndefined"

text \<open>\<^verbatim>\<open>xs[i]\<close> on an array: \<^verbatim>\<open>undefined\<close> past the end.\<close>

definition js_nth :: "jsval list \<Rightarrow> nat \<Rightarrow> jsval" where
  "js_nth xs i = (if i < length xs then xs ! i else JUndefined)"

subsection \<open>parseFloat\<close>

text \<open>
  The built-in \<^verbatim>\<open>parseFloat\<close>: leading white space is skipped, then the longest
  prefix that is a decimal literal (sign, \<^verbatim>\<open>Infinity\<close> or digits with an optional
  fraction and exponent) is read; without such a prefix the result is \<open>NaN\<close>.
  Strings are byte strings here: only the ASCII white space is skipped.
\<close>

definition is_digit :: "char \<Rightarrow> bool" where
  "is_digit c = (c \<in> set ''0123456789'')"

definition is_space :: "char \<Rightarrow> bool" where
  "is_space c = (of_char c \<in> set [9, 10, 11, 12, 13, 32 :: nat])"

definition digit_val :: "char \<Rightarrow> nat" where
  "digit_val c = of_char c - 48"

definition digits_value :: "string \<Rightarrow> nat" where
  "digits_value s = foldl (\<lambda>n c. 10 * n + digit_val c) 0 s"

definition pow10 :: "int \<Rightarrow> rat" where
  "pow10 e = (if 0 \<le> e then 10 ^ nat e else 1 / 10 ^ nat (- e))"

definition signed_integer :: "string \<Rightarrow> int option" where
  "signed_integer s =
     (case s of
        [] \<Rightarrow> None
      | c # r \<Rightarrow>
          if c = CHR ''+'' then
            (if takeWhile is_digit r = [] then None
             else Some (int (digits_value (takeWhile is_digit r))))
          else if c = CHR ''-'' then
            (if takeWhile is_digit r = [] then None
             else Some (- int (digits_value (takeWhile is_digit r))))
          else
            (if takeWhile is_digit s = [] then None
             else Some (int (digits_value (takeWhile is_digit s)))))"

definition exponent_part :: "string \<Rightarrow> int" where
  "exponent_part s =
     (case s of
        [] \<Rightarrow> 0
      | c # r \<Rightarrow>
          if c = CHR ''e'' \<or> c = CHR ''E'' then
            (case signed_integer r of None \<Rightarrow> 0 | Some e \<Rightarrow> e)
          else 0)"

definition unsigned_literal :: "string \<Rightarrow> jsnum" where
  "unsigned_literal s =
     (if take 8 s = ''Infinity'' then PosInf
      else
        let ip = takeWhile is_digit s;
            r = dropWhile is_digit s;
            dot = (r \<noteq> [] \<and> hd r = CHR ''.'');
            fp = (if dot then takeWhile is_digit (tl r) else []);
            r2 = (if dot then dropWhile is_digit (tl r) else r)
        in if ip = [] \<and> fp = [] then NaN
           else Fin (of_nat (digits_value (ip @ fp)) * pow10 (exponent_part r2 - int (length fp))))"

fun num_negate :: "jsnum \<Rightarrow> jsnum" where
  "num_negate NaN = NaN"
| "num_negate PosInf = NegInf"
| "num_negate NegInf = PosInf"
| "num_negate (Fin q) = Fin (- q)"

definition parseFloat_string :: "string \<Rightarrow> jsnum" where
  "parseFloat_string s =
     (case dropWhile is_space s of
        [] \<Rightarrow> NaN
      | c # r \<Rightarrow>
          if c = CHR ''+'' then unsigned_literal r
          else if c = CHR ''-'' then num_negate (unsigned_literal r)
          else unsigned_literal (c # r))"

text \<open>
  \<^verbatim>\<open>parseFloat\<close> converts its argument to a string first. A number reads back as
  itself; \<^verbatim>\<open>undefined\<close>, \<^verbatim>\<open>null\<close>, booleans and plain objects give strings that
  start no literal; an array is joined with commas, so that what is read is what its
  first element gives.
\<close>

fun parseFloat :: "jsval \<Rightarrow> jsnum" where
  "parseFloat (JStr s) = parseFloat_string s"
| "parseFloat (JNum n) = n"
| "parseFloat (JArr (x # xs)) = parseFloat x"
| "parseFloat v = NaN"

subsection \<open>Number.prototype.toString on an integer\<close>

definition digit_char :: "nat \<Rightarrow> char" where
  "digit_char n = ''0123456789'' ! n"

fun nat_digits :: "nat \<Rightarrow> string" where
  "nat_digits n = (if n < 10 then [digit_char n] else nat_digits (n div 10) @ [digit_char (n mod 10)])"

declare nat_digits.simps [simp del]

definition decimal :: "int \<Rightarrow> string" where
  "decimal i = (if i < 0 then CHR ''-'' # nat_digits (nat (- i)) else nat_digits (nat i))"


section \<open>The exchange object and its collaborators\<close>

text \<open>What \<^verbatim>\<open>describe ()\<close> fixes: the id, the version, the API roots and the table
  \<^verbatim>\<open>'exceptions'\<close> from venue error codes to error classes.\<close>

definition exchange_id :: string where
  "exchange_id = ''stronghold''"

definition version :: string where
  "version = ''v1''"

definition urls_api :: "(string \<times> string) list" where
  "urls_api =
     [(''public'', ''https://api.stronghold.co''),
      (''private'', ''https://api.stronghold.co'')]"

definition exceptions :: "(string \<times> error_kind) list" where
  "exceptions =
     [(''CREDENTIAL_MISSING'', AuthenticationError),
      (''CREDENTIAL_INVALID'', AuthenticationError),
      (''CREDENTIAL_REVOKED'', AccountSuspended),
      (''CREDENTIAL_NO_IDENTITY'', AuthenticationError),
      (''PASSPHRASE_INVALID'', AuthenticationError),
      (''SIGNATURE_INVALID'', AuthenticationError),
      (''TIME_INVALID'', InvalidNonce),
      (''BYPASS_INVALID'', AuthenticationError),
      (''INSUFFICIENT_FUNDS'', InsufficientFunds)]"

text \<open>\<^verbatim>\<open>options['venues']\<close> is an array that \<^verbatim>\<open>setSandboxMode\<close> also uses through
  named properties, so an array keeps both its elements and its named properties.\<close>

record js_array =
  elements :: "jsval list"
  named :: dict

record options =
  accountId :: jsval
  venueId :: jsval
  venues :: js_array
  paymentMethods :: dict

definition describe_options :: options where
  "describe_options =
     \<lparr>accountId = JUndefined,
      venueId = JStr ''trade-public'',
      venues = \<lparr>elements = [JStr ''trade-public'', JStr ''sandbox-public''], named = []\<rparr>,
      paymentMethods =
        [(''ETH'', JStr ''ethereum''), (''BTC'', JStr ''bitcoin''), (''XLM'', JStr ''stellar'')]\<rparr>"

text \<open>The mutable part of \<^verbatim>\<open>this\<close>: the credentials, the options and the market index.\<close>

record exchange =
  apiKey :: jsval
  secret :: jsval
  password :: jsval
  options :: options
  markets_by_id :: jsval

text \<open>
  The methods of the base class \<^verbatim>\<open>./base/Exchange\<close> that the connector calls and whose
  results it only passes on are parameters of the model: route templating, query and
  JSON serialisation, the cryptographic primitives, the clock, the credential check,
  the currency-code canonicalisation, the date conversions and the integer reader.
  \<open>stringify\<close> is JavaScript's conversion to a string on numbers, arrays and objects.
\<close>

record base =
  implodeParams :: "string \<Rightarrow> dict \<Rightarrow> string"
  extractParams :: "string \<Rightarrow> string list"
  omit :: "dict \<Rightarrow> string list \<Rightarrow> dict"
  urlencode :: "dict \<Rightarrow> string"
  json :: "dict \<Rightarrow> string"
  base64ToBinary :: "jsval \<Rightarrow> string"
  encode :: "string \<Rightarrow> string"
  hmac :: "string \<Rightarrow> string \<Rightarrow> string \<Rightarrow> string \<Rightarrow> string"
  seconds :: int
  checkRequiredCredentials :: "exchange \<Rightarrow> exn option"
  commonCurrencyCode :: "jsval \<Rightarrow> jsval"
  parse8601 :: "jsval \<Rightarrow> jsval"
  iso8601 :: "jsval \<Rightarrow> jsval"
  safeInteger :: "jsval \<Rightarrow> string \<Rightarrow> jsval"
  stringify :: "jsval \<Rightarrow> string"

text \<open>Conversion to a string, as string concatenation and property keys apply it.\<close>

definition to_string :: "base \<Rightarrow> jsval \<Rightarrow> string" where
  "to_string b v =
     (case v of
        JUndefined \<Rightarrow> ''undefined''
      | JNull \<Rightarrow> ''null''
      | JBool t \<Rightarrow> (if t then ''true'' else ''false'')
      | JStr s \<Rightarrow> s
      | _ \<Rightarrow> stringify b v)"

text \<open>\<^verbatim>\<open>result[k] = v\<close> on a plain object: an existing key keeps its place.\<close>

fun assign :: "dict \<Rightarrow> string \<Rightarrow> jsval \<Rightarrow> dict" where
  "assign [] k v = [(k, v)]"
| "assign ((k', v') # fs) k v = (if k' = k then (k, v) # fs else (k', v') # assign fs k v)"

subsection \<open>The field readers\<close>

text \<open>Modelled from the spec: the field access under the \<^verbatim>\<open>safe*\<close> readers of
  the base class is not under \<^verbatim>\<open>src/\<close>. A field of a keyed structure is read by its
  name; anything else has no fields. A field is absent when the structure has no such
  key or holds \<^verbatim>\<open>null\<close> there.\<close>

definition field_of :: "jsval \<Rightarrow> string \<Rightarrow> jsval" where
  "field_of obj k = (case obj of JObj fs \<Rightarrow> lookup fs k | _ \<Rightarrow> JUndefined)"

text \<open>Modelled from the spec: \<^verbatim>\<open>safeString\<close> of the base class is not under \<^verbatim>\<open>src/\<close>.
  The specification reads optional string fields (error code, ids, side, dates): an
  absent field is unset, a present one is read as a string.\<close>

definition safeString :: "base \<Rightarrow> jsval \<Rightarrow> string \<Rightarrow> jsval" where
  "safeString b obj k =
     (case field_of obj k of
        JUndefined \<Rightarrow> JUndefined
      | JNull \<Rightarrow> JUndefined
      | v \<Rightarrow> JStr (to_string b v))"

text \<open>Modelled from the spec: \<^verbatim>\<open>safeValue\<close> of the base class is not under \<^verbatim>\<open>src/\<close>.
  The specification reads the success flag and the market index entry as they are, an
  absent one as unset.\<close>

definition safeValue :: "jsval \<Rightarrow> string \<Rightarrow> jsval" where
  "safeValue obj k =
     (case field_of obj k of
        JUndefined \<Rightarrow> JUndefined
      | JNull \<Rightarrow> JUndefined
      | v \<Rightarrow> v)"

text \<open>Modelled from the spec: \<^verbatim>\<open>safeFloat\<close> of the base class is not under \<^verbatim>\<open>src/\<close>.
  Section 7 of the specification: a numeric field that cannot be interpreted is a
  \<open>ParseFailure\<close>, fatal to the call and never defaulted; section 4.7: an absent field
  takes the documented default (\<^verbatim>\<open>undefined\<close> where the call gives none).
  A string is read as \<^verbatim>\<open>parseFloat\<close> reads it, as the tuple branch of \<^verbatim>\<open>parseTrade\<close>
  does; only finite numbers count.\<close>

definition safeFloat :: "jsval \<Rightarrow> string \<Rightarrow> jsnum option \<Rightarrow> exn + jsnum option" where
  "safeFloat obj k dflt =
     (case field_of obj k of
        JUndefined \<Rightarrow> Inr dflt
      | JNull \<Rightarrow> Inr dflt
      | JNum n \<Rightarrow>
          (case n of Fin q \<Rightarrow> Inr (Some (Fin q)) | _ \<Rightarrow> Inl (Exn ParseFailure k))
      | JStr s \<Rightarrow>
          (case parseFloat_string s of
             Fin q \<Rightarrow> Inr (Some (Fin q))
           | _ \<Rightarrow> Inl (Exn ParseFailure k))
      | _ \<Rightarrow> Inl (Exn ParseFailure k))"

text \<open>A field that is there and does not read as a finite number: what the
  specification calls unparsable.\<close>

definition unparsable :: "jsval \<Rightarrow> bool" where
  "unparsable v =
     (case v of
        JUndefined \<Rightarrow> False
      | JNull \<Rightarrow> False
      | JNum n \<Rightarrow> (case n of Fin q \<Rightarrow> False | _ \<Rightarrow> True)
      | JStr s \<Rightarrow> (case parseFloat_string s of Fin q \<Rightarrow> False | _ \<Rightarrow> True)
      | _ \<Rightarrow> True)"

section \<open>The normalizers\<close>

subsection \<open>parseOrder\<close>

definition parseOrder :: "base \<Rightarrow> jsval \<Rightarrow> jsval \<Rightarrow> exn + jsval" where
  "parseOrder b order market =
     (case (if market \<noteq> JUndefined then js_get market ''symbol'' else Inr JUndefined) of
        Inl e \<Rightarrow> Inl e
      | Inr symbol \<Rightarrow>
         (let id' = safeString b order ''id'';
              datetime = safeString b order ''placedAt''
          in
          (case safeFloat order ''size'' None of
             Inl e \<Rightarrow> Inl e
           | Inr amount \<Rightarrow>
              (case safeFloat order ''sizeFilled'' None of
                 Inl e \<Rightarrow> Inl e
               | Inr filled \<Rightarrow>
                  (let timestamp = parse8601 b datetime;
                       side = safeString b order ''side'';
                       remaining = js_minus amount filled
                   in
                   (case safeFloat order ''price'' None of
                      Inl e \<Rightarrow> Inl e
                    | Inr price \<Rightarrow>
                        Inr (JObj
                          [(''id'', id'),
                           (''info'', order),
                           (''symbol'', symbol),
                           (''datetime'', datetime),
                           (''timestamp'', timestamp),
                           (''side'', side),
                           (''amount'', num_or_undefined amount),
                           (''filled'', num_or_undefined filled),
                           (''remaining'', JNum remaining),
                           (''price'', num_or_undefined price)])))))))"

subsection \<open>parseTrade\<close>

text \<open>The end of \<^verbatim>\<open>parseTrade\<close>, common to both shapes: the symbol of the market, if
  there is one, and the record.\<close>

definition trade_record ::
  "base \<Rightarrow> jsval \<Rightarrow> jsval \<Rightarrow> jsval \<Rightarrow> jsval \<Rightarrow> jsval \<Rightarrow> jsval \<Rightarrow> jsval \<Rightarrow> jsval \<Rightarrow> jsval
    \<Rightarrow> exn + jsval" where
  "trade_record b trade market id' takerOrMaker price amount side timestamp orderId =
     (case (if market \<noteq> JUndefined then js_get market ''symbol'' else Inr JUndefined) of
        Inl e \<Rightarrow> Inl e
      | Inr symbol \<Rightarrow>
          Inr (JObj
            [(''id'', id'),
             (''info'', trade),
             (''timestamp'', timestamp),
             (''datetime'', iso8601 b timestamp),
             (''symbol'', symbol),
             (''type'', JUndefined),
             (''order'', orderId),
             (''side'', side),
             (''price'', price),
             (''amount'', amount),
             (''cost'', JUndefined),
             (''takerOrMaker'', takerOrMaker),
             (''fee'',
                JObj [(''cost'', JUndefined), (''currency'', JUndefined), (''rate'', JUndefined)])]))"

definition parseTrade :: "base \<Rightarrow> exchange \<Rightarrow> jsval \<Rightarrow> jsval \<Rightarrow> exn + jsval" where
  "parseTrade b ex trade market =
     (case trade of
        JArr xs \<Rightarrow>
          (let price = JNum (parseFloat (js_nth xs 0));
               amount = JNum (parseFloat (js_nth xs 1));
               side = JNum (parseFloat (js_nth xs 2));
               timestamp = parse8601 b (js_nth xs 3)
           in trade_record b trade market JUndefined JUndefined price amount side timestamp
                JUndefined)
      | _ \<Rightarrow>
          (let id' = safeString b trade ''id'' in
           (case safeFloat trade ''price'' None of
              Inl e \<Rightarrow> Inl e
            | Inr price \<Rightarrow>
               (case safeFloat trade ''size'' None of
                  Inl e \<Rightarrow> Inl e
                | Inr amount \<Rightarrow>
                   (let side = safeString b trade ''side'';
                        timestamp = parse8601 b (safeString b trade ''executedAt'');
                        orderId = safeString b trade ''orderId'';
                        marketId = safeString b trade ''marketId'';
                        market' = safeValue (markets_by_id ex) (to_string b marketId)
                    in
                    (case js_get trade ''maker'' of
                       Inl e \<Rightarrow> Inl e
                     | Inr maker \<Rightarrow>
                         trade_record b trade market' id'
                           (JStr (if truthy maker then ''maker'' else ''taker''))
                           (num_or_undefined price) (num_or_undefined amount) side timestamp
                           orderId))))))"

subsection \<open>fetchCurrencies and fetchBalance\<close>

text \<open>The body of the loop of \<^verbatim>\<open>fetchCurrencies\<close> on one entry of
  \<^verbatim>\<open>response['result']\<close>: the code and the record stored under it.\<close>

definition fetchCurrencies_entry :: "base \<Rightarrow> jsval \<Rightarrow> jsval \<times> jsval" where
  "fetchCurrencies_entry b entry =
     (let currencyId = safeString b entry ''code'';
          code = commonCurrencyCode b currencyId;
          precision = safeInteger b entry ''displayDecimalsFull''
      in (code,
          JObj
            [(''code'', code),
             (''id'', currencyId),
             (''precision'', precision),
             (''info'', entry)]))"

fun fetchCurrencies_loop :: "base \<Rightarrow> jsval list \<Rightarrow> dict \<Rightarrow> dict" where
  "fetchCurrencies_loop b [] result = result"
| "fetchCurrencies_loop b (entry # data) result =
     (case fetchCurrencies_entry b entry of
        (code, currency) \<Rightarrow> fetchCurrencies_loop b data (assign result (to_string b code) currency))"

text \<open>\<^verbatim>\<open>s.split ('/')[0]\<close>: the part of \<open>s\<close> before its first \<^verbatim>\<open>/\<close>.\<close>

definition leading_segment :: "string \<Rightarrow> string" where
  "leading_segment s = takeWhile (\<lambda>c. c \<noteq> CHR ''/'') s"

text \<open>The body of the loop of \<^verbatim>\<open>fetchBalance\<close> on one entry of
  \<^verbatim>\<open>response['result']['balances']\<close>. Only a string has a \<^verbatim>\<open>split\<close> method.\<close>

definition fetchBalance_entry :: "base \<Rightarrow> jsval \<Rightarrow> exn + jsval \<times> jsval" where
  "fetchBalance_entry b entry =
     (case js_get entry ''assetId'' of
        Inl e \<Rightarrow> Inl e
      | Inr assetId \<Rightarrow>
     (case assetId of
        JStr s \<Rightarrow>
          let asset = leading_segment s;
              code = commonCurrencyCode b (JStr asset)
          in
          (case safeFloat entry ''amount'' (Some (Fin 0)) of
             Inl e \<Rightarrow> Inl e
           | Inr total' \<Rightarrow>
              (case safeFloat entry ''availableForTrade'' (Some (Fin 0)) of
                 Inl e \<Rightarrow> Inl e
               | Inr available \<Rightarrow>
                   Inr (code,
                        JObj
                          [(''total'', num_or_undefined total'),
                           (''available'', num_or_undefined available),
                           (''free'', JNum (js_minus total' available))])))
      | _ \<Rightarrow> Inl (Exn TypeError ''entry.assetId.split is not a function'')))"

fun fetchBalance_loop :: "base \<Rightarrow> jsval list \<Rightarrow> dict \<Rightarrow> exn + dict" where
  "fetchBalance_loop b [] result = Inr result"
| "fetchBalance_loop b (entry # balances) result =
     (case fetchBalance_entry b entry of
        Inl e \<Rightarrow> Inl e
      | Inr (code, account) \<Rightarrow>
          fetchBalance_loop b balances (assign result (to_string b code) account))"

section \<open>handleErrors\<close>

text \<open>
  \<^verbatim>\<open>this.exceptions\<close> is a plain object. \<^verbatim>\<open>errorCode in this.exceptions\<close> holds of
  the keys of the table of \<^verbatim>\<open>describe ()\<close> and also of the names every object
  inherits from \<^verbatim>\<open>Object.prototype\<close>; \<^verbatim>\<open>this.exceptions[errorCode]\<close> then reads
  an error class of the table, the function \<^verbatim>\<open>Object\<close> (under \<^verbatim>\<open>'constructor'\<close>), or
  an inherited member that \<^verbatim>\<open>new\<close> cannot construct.
\<close>

definition object_prototype_names :: "string list" where
  "object_prototype_names =
     [''constructor'', ''__defineGetter__'', ''__defineSetter__'', ''hasOwnProperty'',
      ''__lookupGetter__'', ''__lookupSetter__'', ''isPrototypeOf'', ''propertyIsEnumerable'',
      ''toString'', ''valueOf'', ''__proto__'', ''toLocaleString'']"

datatype table_entry = ErrorClass error_kind | ObjectFunction | NotConstructor

definition exceptions_in :: "string \<Rightarrow> bool" where
  "exceptions_in k = (k \<in> set (map fst exceptions) \<or> k \<in> set object_prototype_names)"

definition exceptions_get :: "string \<Rightarrow> table_entry" where
  "exceptions_get k =
     (case map_of exceptions k of
        Some c \<Rightarrow> ErrorClass c
      | None \<Rightarrow> if k = ''constructor'' then ObjectFunction else NotConstructor)"

text \<open>\<^verbatim>\<open>throw new Exception (message)\<close>: an error of the class; for \<^verbatim>\<open>Object\<close> the
  String object that \<^verbatim>\<open>new Object (message)\<close> is; a \<open>TypeError\<close> when \<open>Exception\<close>
  is no constructor.\<close>

definition throw_new :: "table_entry \<Rightarrow> string \<Rightarrow> exn" where
  "throw_new c message =
     (case c of
        ErrorClass k \<Rightarrow> Exn k message
      | ObjectFunction \<Rightarrow> Exn StringObject message
      | NotConstructor \<Rightarrow> Exn TypeError ''Exception is not a constructor'')"

text \<open>The result is \<open>Inr ()\<close> when the method returns and \<open>Inl\<close> of what it throws.\<close>

definition handleErrors ::
  "base \<Rightarrow> int \<Rightarrow> string \<Rightarrow> string \<Rightarrow> string \<Rightarrow> jsval \<Rightarrow> string \<Rightarrow> jsval \<Rightarrow> exn + unit" where
  "handleErrors b code reason url' method' headers' body' response =
     (if \<not> truthy response then Inr ()
      else
        (let errorCode = safeString b response ''errorCode'' in
         if exceptions_in (to_string b errorCode) then
           (let Exception = exceptions_get (to_string b errorCode)
            in Inl (throw_new Exception (exchange_id @ '' '' @ body')))
         else
           (let success = safeValue response ''success'' in
            if \<not> truthy success then Inl (Exn ExchangeError (exchange_id @ '' '' @ body'))
            else Inr ())))"

section \<open>sign\<close>

record request =
  url :: string
  http_method :: string
  body :: "string option"
  headers :: jsval

definition nonce :: "base \<Rightarrow> int" where
  "nonce b = seconds b"

text \<open>\<^verbatim>\<open>this.urls['api'][api]\<close> in a string concatenation: a missing entry is
  \<^verbatim>\<open>undefined\<close> and concatenates as that word.\<close>

definition api_url :: "string \<Rightarrow> string" where
  "api_url api = (case map_of urls_api api of None \<Rightarrow> ''undefined'' | Some u \<Rightarrow> u)"

definition sign ::
  "base \<Rightarrow> exchange \<Rightarrow> string \<Rightarrow> string \<Rightarrow> string \<Rightarrow> dict \<Rightarrow> jsval \<Rightarrow> string option
    \<Rightarrow> exn + request" where
  "sign b ex path api method' params headers' body' =
     (let request = ''/'' @ version @ ''/'' @ implodeParams b path params;
          query = omit b params (extractParams b path);
          url0 = api_url api @ request;
          (url1, body1) =
            (if method' = ''GET'' then
               (if length (map fst query) \<noteq> 0
                then (url0 @ ''?'' @ urlencode b query, body')
                else (url0, Some (json b query)))
             else (url0, body'))
      in
      if api = ''private'' then
        (case checkRequiredCredentials b ex of
           Some e \<Rightarrow> Inl e
         | None \<Rightarrow>
            (let timestamp = decimal (nonce b);
                 payload0 = timestamp @ method' @ request;
                 payload = (case body1 of None \<Rightarrow> payload0 | Some s \<Rightarrow> payload0 @ s);
                 secret' = base64ToBinary b (secret ex)
             in
             Inr \<lparr>url = url1, http_method = method', body = body1,
                  headers = JObj
                    [(''SH-CRED-ID'', apiKey ex),
                     (''SH-CRED-SIG'', JStr (hmac b (encode b payload) secret' ''sha256'' ''base64'')),
                     (''SH-CRED-TIME'', JStr timestamp),
                     (''SH-CRED-PASS'', password ex),
                     (''Content-Type'', JStr ''application/json'')]\<rparr>))
      else Inr \<lparr>url = url1, http_method = method', body = body1, headers = headers'\<rparr>)"

section \<open>setSandboxMode\<close>

text \<open>Named properties of the array \<^verbatim>\<open>options['venues']\<close>: reading, writing and the
  \<^verbatim>\<open>in\<close> test. The names used are \<^verbatim>\<open>'main'\<close>, \<^verbatim>\<open>'backup'\<close> and \<^verbatim>\<open>'sandbox'\<close>;
  none is an index or a built-in property of an array.\<close>

definition array_get :: "js_array \<Rightarrow> string \<Rightarrow> jsval" where
  "array_get a k = lookup (named a) k"

definition array_set :: "js_array \<Rightarrow> string \<Rightarrow> jsval \<Rightarrow> js_array" where
  "array_set a k v = a\<lparr>named := assign (named a) k v\<rparr>"

definition array_has :: "js_array \<Rightarrow> string \<Rightarrow> bool" where
  "array_has a k = (k \<in> set (map fst (named a)))"

definition setSandboxMode :: "jsval \<Rightarrow> exchange \<Rightarrow> exchange" where
  "setSandboxMode enabled ex =
     (if truthy enabled then
        (let v1 = array_set (venues (options ex)) ''backup''
                    (array_get (venues (options ex)) ''main'');
             v2 = array_set v1 ''main'' (array_get v1 ''sandbox'')
         in ex\<lparr>options := (options ex)\<lparr>venues := v2\<rparr>\<rparr>)
      else if array_has (venues (options ex)) ''backup'' then
        ex\<lparr>options := (options ex)\<lparr>venues :=
             array_set (venues (options ex)) ''main''
               (array_get (venues (options ex)) ''backup'')\<rparr>\<rparr>
      else ex)"

text \<open>The venue a request is built for: every method starts its request with
  \<^verbatim>\<open>'venueId': this.options['venueId']\<close>, as \<^verbatim>\<open>fetchMarkets\<close> does.\<close>

definition fetchMarkets_request :: "exchange \<Rightarrow> dict" where
  "fetchMarkets_request ex = [(''venueId'', venueId (options ex))]"

section \<open>A set of collaborators to run the definitions on\<close>

text \<open>
  The theorems below hold for every \<open>base\<close>. To evaluate the definitions on concrete
  inputs, \<open>sample_base\<close> fills the parameters in: \<^verbatim>\<open>{name}\<close> in a path is replaced
  by the parameter of that name, a query is written as \<^verbatim>\<open>k=v\<close> pairs, the
  cryptographic primitives are symbolic, the clock reads 1548630124 and the credential
  check asks for the three credentials of \<^verbatim>\<open>requiredCredentials\<close>.
\<close>

fun fill_path :: "dict \<Rightarrow> string \<Rightarrow> string option \<Rightarrow> string" where
  "fill_path ps [] None = []"
| "fill_path ps [] (Some k) = CHR ''{'' # k"
| "fill_path ps (c # cs) None =
     (if c = CHR ''{'' then fill_path ps cs (Some []) else c # fill_path ps cs None)"
| "fill_path ps (c # cs) (Some k) =
     (if c = CHR ''}'' then
        (case map_of ps k of Some (JStr v) \<Rightarrow> v | _ \<Rightarrow> CHR ''{'' # k @ ''}'') @ fill_path ps cs None
      else fill_path ps cs (Some (k @ [c])))"

fun path_names :: "string \<Rightarrow> string option \<Rightarrow> string list" where
  "path_names [] k = []"
| "path_names (c # cs) None =
     (if c = CHR ''{'' then path_names cs (Some []) else path_names cs None)"
| "path_names (c # cs) (Some k) =
     (if c = CHR ''}'' then k # path_names cs None else path_names cs (Some (k @ [c])))"

fun join :: "string \<Rightarrow> string list \<Rightarrow> string" where
  "join sep [] = []"
| "join sep [x] = x"
| "join sep (x # y # ys) = x @ sep @ join sep (y # ys)"

definition text_of :: "jsval \<Rightarrow> string" where
  "text_of v = (case v of JStr s \<Rightarrow> s | _ \<Rightarrow> [])"

definition sample_time :: "(string \<times> rat) list" where
  "sample_time =
     [(''2019-01-27T23:02:04Z'', 1548630124000),
      (''2019-02-01T18:44:21Z'', 1549046661000)]"

definition sample_base :: base where
  "sample_base =
     \<lparr>implodeParams = (\<lambda>path ps. fill_path ps path None),
      extractParams = (\<lambda>path. path_names path None),
      omit = (\<lambda>ps ks. filter (\<lambda>kv. fst kv \<notin> set ks) ps),
      urlencode = (\<lambda>q. join ''&'' (map (\<lambda>kv. fst kv @ ''='' @ text_of (snd kv)) q)),
      json = (\<lambda>q. ''{'' @ join '','' (map (\<lambda>kv. fst kv @ '':'' @ text_of (snd kv)) q) @ ''}''),
      base64ToBinary = text_of,
      encode = (\<lambda>s. s),
      hmac = (\<lambda>payload key algo digest.
                ''hmac-'' @ algo @ ''-'' @ digest @ ''('' @ key @ '','' @ payload @ '')''),
      seconds = 1548630124,
      checkRequiredCredentials = (\<lambda>ex.
         if truthy (apiKey ex) \<and> truthy (secret ex) \<and> truthy (password ex)
         then None
         else Some (Exn AuthenticationError (exchange_id @ '' requires credentials''))),
      commonCurrencyCode = (\<lambda>v.
         case v of
           JStr s \<Rightarrow>
             (case map_of [(''XBT'', ''BTC''), (''BCC'', ''BCH''), (''DRK'', ''DASH'')] s of
                None \<Rightarrow> JStr s
              | Some c \<Rightarrow> JStr c)
         | _ \<Rightarrow> v),
      parse8601 = (\<lambda>v.
         case map_of sample_time (text_of v) of
           None \<Rightarrow> JUndefined
         | Some t \<Rightarrow> JNum (Fin t)),
      iso8601 = (\<lambda>v.
         case map_of (map (\<lambda>kv. (JNum (Fin (snd kv)), fst kv)) sample_time) v of
           None \<Rightarrow> JUndefined
         | Some s \<Rightarrow> JStr s),
      safeInteger = (\<lambda>obj k.
         case field_of obj k of
           JNum (Fin q) \<Rightarrow> JNum (Fin (of_int \<lfloor>q\<rfloor>))
         | _ \<Rightarrow> JUndefined),
      stringify = (\<lambda>v. ''[object]'')\<rparr>"

definition sample_exchange :: exchange where
  "sample_exchange =
     \<lparr>apiKey = JStr ''key-1'',
      secret = JStr ''c2VjcmV0'',
      password = JStr ''passphrase'',
      options = describe_options,
      markets_by_id =
        JObj [(''XLMUSD'', JObj [(''id'', JStr ''XLMUSD''), (''symbol'', JStr ''XLM/USD'')])]\<rparr>"

section \<open>Properties\<close>

subsection \<open>Reading fields and evaluating the samples\<close>

lemma field_of_JObj [simp]: "field_of (JObj fs) k = lookup fs k"
  by (simp add: field_of_def)

lemma lookup_Cons [simp]:
  "lookup ((k', v) # fs) k = (if k' = k then v else lookup fs k)"
  by (simp add: lookup_def)

lemma lookup_Nil [simp]: "lookup [] k = JUndefined"
  by (simp add: lookup_def)

lemma num_or_undefined_simps [simp]:
  "num_or_undefined None = JUndefined"
  "num_or_undefined (Some n) = JNum n"
  by (simp_all add: num_or_undefined_def)

lemma num_or_undefined_eq_JNum [simp]: "(num_or_undefined a = JNum n) = (a = Some n)"
  by (cases a) simp_all

lemma num_minus_NaN [simp]: "num_minus x NaN = NaN"
  by (cases x) simp_all

lemma js_minus_None [simp]: "js_minus None f = NaN" "js_minus a None = NaN"
  by (simp_all add: js_minus_def to_number_def)

lemma js_minus_Fin [simp]: "js_minus (Some (Fin x)) (Some (Fin y)) = Fin (x - y)"
  by (simp add: js_minus_def to_number_def)

lemmas sample_simps =
  sample_base_def sample_exchange_def describe_options_def text_of_def sample_time_def
  version_def exchange_id_def api_url_def urls_api_def nonce_def decimal_def
  nat_digits.simps digit_char_def Let_def

lemmas parse_simps =
  parseFloat_string_def unsigned_literal_def is_space_def is_digit_def digits_value_def
  digit_val_def pow10_def exponent_part_def signed_integer_def

lemma sample_check: "checkRequiredCredentials sample_base sample_exchange = None"
  by (simp add: sample_simps)

subsection \<open>The decimal string of an integer\<close>

text \<open>\<open>decimal\<close> writes a non-negative integer with digits only, and reading the digits
  back gives the integer.\<close>

lemma digits_value_snoc: "digits_value (s @ [c]) = 10 * digits_value s + digit_val c"
  by (simp add: digits_value_def)

lemma digit_char_cases:
  assumes "d < 10"
  shows "digit_val (digit_char d) = d \<and> is_digit (digit_char d)"
proof -
  from assms have
    "d = 0 \<or> d = 1 \<or> d = 2 \<or> d = 3 \<or> d = 4 \<or> d = 5 \<or> d = 6 \<or> d = 7 \<or> d = 8 \<or> d = 9"
    by arith
  then show ?thesis
    by (elim disjE) (simp_all add: digit_char_def digit_val_def is_digit_def)
qed

lemma nat_digits_value: "digits_value (nat_digits n) = n"
proof (induction n rule: nat_digits.induct)
  case (1 n)
  show ?case
  proof (cases "n < 10")
    case True
    then show ?thesis
      by (subst nat_digits.simps) (simp add: digits_value_def digit_char_cases)
  next
    case False
    with 1 have "digits_value (nat_digits (n div 10)) = n div 10" by simp
    moreover have "digit_val (digit_char (n mod 10)) = n mod 10"
      by (simp add: digit_char_cases)
    ultimately show ?thesis
      using False by (subst nat_digits.simps) (simp add: digits_value_snoc)
  qed
qed

lemma nat_digits_are_digits: "\<forall>c \<in> set (nat_digits n). is_digit c"
proof (induction n rule: nat_digits.induct)
  case (1 n)
  show ?case
  proof (cases "n < 10")
    case True
    then show ?thesis
      by (subst nat_digits.simps) (simp add: digit_char_cases)
  next
    case False
    with 1 have "\<forall>c \<in> set (nat_digits (n div 10)). is_digit c" by simp
    then show ?thesis
      using False by (subst nat_digits.simps) (simp add: digit_char_cases)
  qed
qed

lemma decimal_reads_back:
  "0 \<le> i \<Longrightarrow> int (digits_value (decimal i)) = i \<and> (\<forall>c \<in> set (decimal i). is_digit c)"
  by (simp add: decimal_def nat_digits_value nat_digits_are_digits)

subsection \<open>sign: the payload, the signature and the headers of a private call\<close>

text \<open>
  Claim C1. For a private call that passes the credential check, the payload that is
  signed is the decimal string of the nonce, then the HTTP method, then the request path
  \<^verbatim>\<open>/v1/\<close> followed by the path with its parameters substituted, then the body when
  the returned request has one and nothing otherwise. The signature header is
  \<^verbatim>\<open>hmac\<close> of the encoded payload under the base64-decoded secret with
  \<^verbatim>\<open>'sha256'\<close> and \<^verbatim>\<open>'base64'\<close>; the headers carry the credential id, the
  signature, the nonce and the passphrase. That \<open>decimal\<close> is the decimal string of
  the clock's seconds is \<open>decimal_reads_back\<close>.
\<close>

theorem sign_private_payload:
  assumes "checkRequiredCredentials b ex = None"
  shows "\<exists>r. sign b ex path ''private'' m params hdrs bd = Inr r
     \<and> http_method r = m
     \<and> headers r = JObj
         [(''SH-CRED-ID'', apiKey ex),
          (''SH-CRED-SIG'',
             JStr (hmac b
               (encode b
                 (decimal (nonce b) @ m @ (''/'' @ version @ ''/'' @ implodeParams b path params)
                   @ (case body r of None \<Rightarrow> [] | Some s \<Rightarrow> s)))
               (base64ToBinary b (secret ex)) ''sha256'' ''base64'')),
          (''SH-CRED-TIME'', JStr (decimal (nonce b))),
          (''SH-CRED-PASS'', password ex),
          (''Content-Type'', JStr ''application/json'')]"
  using assms by (simp add: sign_def Let_def split: prod.splits option.splits)

theorem sign_private_payload_witness:
  "checkRequiredCredentials sample_base sample_exchange = None
   \<and> (\<exists>r. sign sample_base sample_exchange ''venues/{venueId}/accounts/{accountId}/orders''
            ''private'' ''GET''
            [(''venueId'', JStr ''trade-public''), (''accountId'', JStr ''acc-1'')]
            JUndefined None = Inr r
      \<and> http_method r = ''GET''
      \<and> body r = Some ''{}''
      \<and> headers r = JObj
          [(''SH-CRED-ID'', JStr ''key-1''),
           (''SH-CRED-SIG'', JStr
              ''hmac-sha256-base64(c2VjcmV0,1548630124GET/v1/venues/trade-public/accounts/acc-1/orders{})''),
           (''SH-CRED-TIME'', JStr ''1548630124''),
           (''SH-CRED-PASS'', JStr ''passphrase''),
           (''Content-Type'', JStr ''application/json'')])"
  using sign_private_payload [OF sample_check,
      of "''venues/{venueId}/accounts/{accountId}/orders''" "''GET''"
         "[(''venueId'', JStr ''trade-public''), (''accountId'', JStr ''acc-1'')]"
         JUndefined None]
  by (simp add: sign_def sample_simps)

subsection \<open>sign: a public call\<close>

text \<open>
  Claim C10. When \<open>api\<close> is not \<^verbatim>\<open>'private'\<close>, as for \<^verbatim>\<open>'public'\<close>, the call
  returns a request whose headers are the \<open>headers\<close> argument; the result depends
  neither on the credential check nor on the credentials, so no check is made and no
  credential header is attached. The credential headers are attached only when \<open>api\<close>
  is \<^verbatim>\<open>'private'\<close>.
\<close>

theorem sign_public_headers:
  "api \<noteq> ''private'' \<longrightarrow>
      (\<exists>r. sign b ex path api m params hdrs bd = Inr r \<and> headers r = hdrs)
      \<and> sign (b\<lparr>checkRequiredCredentials := chk\<rparr>) ex path api m params hdrs bd
          = sign b ex path api m params hdrs bd
      \<and> sign b (ex\<lparr>apiKey := k, secret := s, password := p\<rparr>) path api m params hdrs bd
          = sign b ex path api m params hdrs bd"
  by (simp add: sign_def Let_def nonce_def split: prod.splits option.splits)

theorem sign_public_headers_witness:
  "''public'' \<noteq> ''private''
   \<and> checkRequiredCredentials sample_base (sample_exchange\<lparr>apiKey := JUndefined\<rparr>) \<noteq> None
   \<and> sign sample_base (sample_exchange\<lparr>apiKey := JUndefined\<rparr>)
        ''venues/{venueId}/markets/{marketId}/trades'' ''public'' ''GET''
        [(''venueId'', JStr ''trade-public''), (''marketId'', JStr ''XLMUSD''),
         (''limit'', JStr ''10'')]
        (JObj [(''Accept'', JStr ''application/json'')]) None
      = Inr \<lparr>url = ''https://api.stronghold.co/v1/venues/trade-public/markets/XLMUSD/trades?limit=10'',
             http_method = ''GET'', body = None,
             headers = JObj [(''Accept'', JStr ''application/json'')]\<rparr>"
  using sign_public_headers [of "''public''" sample_base "sample_exchange\<lparr>apiKey := JUndefined\<rparr>"
      "''venues/{venueId}/markets/{marketId}/trades''" "''GET''"
      "[(''venueId'', JStr ''trade-public''), (''marketId'', JStr ''XLMUSD''),
        (''limit'', JStr ''10'')]"
      "JObj [(''Accept'', JStr ''application/json'')]" None]
  by (simp add: sign_def sample_simps)

subsection \<open>parseOrder\<close>

lemma parseOrder_Inr:
  assumes "parseOrder b order market = Inr r"
  obtains symbol amount filled price where
    "safeFloat order ''size'' None = Inr amount"
    "safeFloat order ''sizeFilled'' None = Inr filled"
    "safeFloat order ''price'' None = Inr price"
    "r = JObj
       [(''id'', safeString b order ''id''),
        (''info'', order),
        (''symbol'', symbol),
        (''datetime'', safeString b order ''placedAt''),
        (''timestamp'', parse8601 b (safeString b order ''placedAt'')),
        (''side'', safeString b order ''side''),
        (''amount'', num_or_undefined amount),
        (''filled'', num_or_undefined filled),
        (''remaining'', JNum (js_minus amount filled)),
        (''price'', num_or_undefined price)]"
  using assms
  by (auto simp add: parseOrder_def Let_def split: sum.splits if_splits)

lemma safeFloat_unparsable:
  "unparsable (field_of obj k) \<Longrightarrow> safeFloat obj k d = Inl (Exn ParseFailure k)"
  by (auto simp add: unparsable_def safeFloat_def split: jsval.splits jsnum.splits)

lemma safeFloat_cases:
  "safeFloat obj k d = Inl (Exn ParseFailure k) \<or> (\<exists>v. safeFloat obj k d = Inr v)"
  by (auto simp add: safeFloat_def split: jsval.splits jsnum.splits)

lemma js_get_not_null:
  "market \<noteq> JUndefined \<Longrightarrow> market \<noteq> JNull \<Longrightarrow> \<exists>v. js_get market k = Inr v"
  by (cases market) simp_all

lemma parseOrder_sample:
  "parseOrder sample_base
     (JObj [(''id'', JStr ''o1''), (''placedAt'', JStr ''2019-02-01T18:44:21Z''),
            (''side'', JStr ''sell''), (''size'', JStr ''10''), (''sizeFilled'', JStr ''2.5''),
            (''price'', JStr ''0.10440600'')])
     JUndefined
   = Inr (JObj
       [(''id'', JStr ''o1''),
        (''info'',
           JObj [(''id'', JStr ''o1''), (''placedAt'', JStr ''2019-02-01T18:44:21Z''),
                 (''side'', JStr ''sell''), (''size'', JStr ''10''), (''sizeFilled'', JStr ''2.5''),
                 (''price'', JStr ''0.10440600'')]),
        (''symbol'', JUndefined),
        (''datetime'', JStr ''2019-02-01T18:44:21Z''),
        (''timestamp'', JNum (Fin 1549046661000)),
        (''side'', JStr ''sell''),
        (''amount'', JNum (Fin 10)),
        (''filled'', JNum (Fin (5 / 2))),
        (''remaining'', JNum (Fin (15 / 2))),
        (''price'', JNum (Fin (52203 / 500000)))])"
  by (simp add: parseOrder_def safeFloat_def safeString_def to_string_def sample_simps parse_simps)




text \<open>
  Claim C7. When the \<^verbatim>\<open>size\<close> or the \<^verbatim>\<open>sizeFilled\<close> field of a raw order is there and
  does not read as a number, \<^verbatim>\<open>parseOrder\<close> returns no record: it fails, and with a
  parse failure unless the market argument is \<^verbatim>\<open>null\<close> (whose symbol cannot be read,
  a \<open>TypeError\<close> before any field is parsed). The failure is that of the field reader
  \<^verbatim>\<open>safeFloat\<close> as the specification describes it; \<^verbatim>\<open>parseOrder\<close> passes it on.
\<close>

theorem parseOrder_unparsable_fails:
  assumes "unparsable (field_of order ''size'') \<or> unparsable (field_of order ''sizeFilled'')"
  shows "(\<exists>e. parseOrder b order market = Inl e)
     \<and> (market \<noteq> JNull \<longrightarrow> (\<exists>k. parseOrder b order market = Inl (Exn ParseFailure k)))"
proof -
  have fails: "\<exists>e. parseOrder b order market = Inl e"
  proof (cases "parseOrder b order market")
    case (Inl e)
    then show ?thesis by blast
  next
    case (Inr r)
    then obtain amount filled where
      "safeFloat order ''size'' None = Inr amount"
      "safeFloat order ''sizeFilled'' None = Inr filled"
      by (rule parseOrder_Inr)
    with assms show ?thesis
      by (auto dest: safeFloat_unparsable [where d = None])
  qed
  have parse: "\<exists>k. parseOrder b order market = Inl (Exn ParseFailure k)" if "market \<noteq> JNull"
  proof -
    have "\<exists>symbol.
        (if market \<noteq> JUndefined then js_get market ''symbol'' else Inr JUndefined) = Inr symbol"
    proof (cases "market = JUndefined")
      case True
      then show ?thesis by simp
    next
      case False
      with that have "\<exists>v. js_get market ''symbol'' = Inr v"
        by (simp add: js_get_not_null)
      with False show ?thesis by simp
    qed
    then obtain symbol where
      sym: "(if market \<noteq> JUndefined then js_get market ''symbol'' else Inr JUndefined) = Inr symbol"
      by blast
    from assms show ?thesis
    proof
      assume "unparsable (field_of order ''size'')"
      then have "safeFloat order ''size'' None = Inl (Exn ParseFailure ''size'')"
        by (rule safeFloat_unparsable)
      then show ?thesis
        using sym by (simp add: parseOrder_def Let_def)
    next
      assume "unparsable (field_of order ''sizeFilled'')"
      then have f: "safeFloat order ''sizeFilled'' None = Inl (Exn ParseFailure ''sizeFilled'')"
        by (rule safeFloat_unparsable)
      from safeFloat_cases [of order "''size''" None] show ?thesis
      proof
        assume "safeFloat order ''size'' None = Inl (Exn ParseFailure ''size'')"
        then show ?thesis using sym by (simp add: parseOrder_def Let_def)
      next
        assume "\<exists>v. safeFloat order ''size'' None = Inr v"
        then show ?thesis using sym f by (auto simp add: parseOrder_def Let_def)
      qed
    qed
  qed
  from fails parse show ?thesis by blast
qed

lemma unparsable_sample:
  "unparsable (field_of (JObj [(''id'', JStr ''o1''), (''size'', JStr ''10''),
      (''sizeFilled'', JStr ''n/a'')]) ''size'')
   \<or> unparsable (field_of (JObj [(''id'', JStr ''o1''), (''size'', JStr ''10''),
      (''sizeFilled'', JStr ''n/a'')]) ''sizeFilled'')"
  by (simp add: unparsable_def parse_simps)

theorem parseOrder_unparsable_fails_witness:
  "(unparsable (field_of (JObj [(''id'', JStr ''o1''), (''size'', JStr ''10''),
      (''sizeFilled'', JStr ''n/a'')]) ''size'')
    \<or> unparsable (field_of (JObj [(''id'', JStr ''o1''), (''size'', JStr ''10''),
      (''sizeFilled'', JStr ''n/a'')]) ''sizeFilled''))
   \<and> parseOrder sample_base
        (JObj [(''id'', JStr ''o1''), (''size'', JStr ''10''), (''sizeFilled'', JStr ''n/a'')])
        JUndefined
      = Inl (Exn ParseFailure ''sizeFilled'')"
  using parseOrder_unparsable_fails [OF unparsable_sample, of sample_base JUndefined]
    unparsable_sample
  by (simp add: parseOrder_def safeFloat_def safeString_def to_string_def sample_simps parse_simps)

subsection \<open>fetchBalance\<close>

lemma safeFloat_default_zero:
  assumes "safeFloat obj k (Some (Fin 0)) = Inr v"
  shows "\<exists>q. v = Some (Fin q) \<and> (field_of obj k = JUndefined \<longrightarrow> q = 0)"
  using assms
  by (auto simp add: safeFloat_def split: jsval.splits jsnum.splits)

lemma fetchBalance_entry_Inr:
  assumes "fetchBalance_entry b entry = Inr (code, account)"
  obtains total' available where
    "safeFloat entry ''amount'' (Some (Fin 0)) = Inr total'"
    "safeFloat entry ''availableForTrade'' (Some (Fin 0)) = Inr available"
    "account = JObj
       [(''total'', num_or_undefined total'),
        (''available'', num_or_undefined available),
        (''free'', JNum (js_minus total' available))]"
  using assms
  by (auto simp add: fetchBalance_entry_def Let_def split: sum.splits jsval.splits)



text \<open>The same holds of every account that the loop of \<^verbatim>\<open>fetchBalance\<close> stores.\<close>

lemma assign_values:
  "(k', v') \<in> set (assign fs k v) \<Longrightarrow> (k', v') \<in> set fs \<or> (k', v') = (k, v)"
  by (induction fs) (auto split: if_splits)

lemma fetchBalance_loop_free:
  assumes "fetchBalance_loop b balances result = Inr accounts"
    and "\<forall>kv \<in> set result.
           \<exists>t a. field_of (snd kv) ''total'' = JNum (Fin t)
              \<and> field_of (snd kv) ''available'' = JNum (Fin a)
              \<and> field_of (snd kv) ''free'' = JNum (Fin (t - a))"
  shows "\<forall>kv \<in> set accounts.
           \<exists>t a. field_of (snd kv) ''total'' = JNum (Fin t)
              \<and> field_of (snd kv) ''available'' = JNum (Fin a)
              \<and> field_of (snd kv) ''free'' = JNum (Fin (t - a))"
  using assms
proof (induction balances arbitrary: result)
  case Nil
  then show ?case by simp
next
  case (Cons entry balances)
  from Cons.prems(1) obtain code account where
    e: "fetchBalance_entry b entry = Inr (code, account)" and
    l: "fetchBalance_loop b balances (assign result (to_string b code) account) = Inr accounts"
    by (auto split: sum.splits)
  have "\<exists>t a. field_of account ''total'' = JNum (Fin t)
              \<and> field_of account ''available'' = JNum (Fin a)
              \<and> field_of account ''free'' = JNum (Fin (t - a))"
    using e by (elim fetchBalance_entry_Inr) (auto dest!: safeFloat_default_zero)
  with Cons.prems(2) have
    "\<forall>kv \<in> set (assign result (to_string b code) account).
           \<exists>t a. field_of (snd kv) ''total'' = JNum (Fin t)
              \<and> field_of (snd kv) ''available'' = JNum (Fin a)
              \<and> field_of (snd kv) ''free'' = JNum (Fin (t - a))"
    by (auto dest: assign_values)
  with Cons.IH l show ?case by blast
qed

subsection \<open>handleErrors\<close>

text \<open>
  Where the error code is absent, a key of the table, or a string that is neither in
  the table nor an inherited name, \<^verbatim>\<open>handleErrors\<close> classifies as intended: it
  returns at once when there is no response (a falsy \<open>response\<close>, such as
  \<^verbatim>\<open>undefined\<close>); for a code of the table it throws the class the table gives,
  whatever the success flag is; otherwise, for an envelope with a boolean success flag,
  it throws \<open>ExchangeError\<close> when the flag is false and returns when it is true.
\<close>

lemma exceptions_in_table: "map_of exceptions ec = Some kind \<Longrightarrow> exceptions_in ec"
  by (auto simp add: exceptions_in_def dest: map_of_SomeD intro: rev_image_eqI)

lemma exceptions_in_other:
  "map_of exceptions ec = None \<Longrightarrow> ec \<notin> set object_prototype_names \<Longrightarrow> \<not> exceptions_in ec"
  by (simp add: exceptions_in_def map_of_eq_None_iff)

lemma undefined_not_in: "\<not> exceptions_in ''undefined''"
  by (simp add: exceptions_in_def exceptions_def object_prototype_names_def)

lemma handleErrors_classification:
  "(\<not> truthy response \<longrightarrow> handleErrors b c rs u m h bd response = Inr ())
   \<and> (\<forall>fs ec kind.
        response = JObj fs \<and> lookup fs ''errorCode'' = JStr ec \<and> map_of exceptions ec = Some kind
        \<longrightarrow> handleErrors b c rs u m h bd response = Inl (Exn kind (exchange_id @ '' '' @ bd)))
   \<and> (\<forall>fs ok.
        response = JObj fs \<and> lookup fs ''success'' = JBool ok
        \<and> (lookup fs ''errorCode'' = JUndefined
            \<or> (\<exists>ec. lookup fs ''errorCode'' = JStr ec \<and> map_of exceptions ec = None
                  \<and> ec \<notin> set object_prototype_names))
        \<longrightarrow> handleErrors b c rs u m h bd response
            = (if ok then Inr () else Inl (Exn ExchangeError (exchange_id @ '' '' @ bd))))"
proof -
  have skip: "\<not> truthy response \<longrightarrow> handleErrors b c rs u m h bd response = Inr ()"
    by (simp add: handleErrors_def)
  have known: "handleErrors b c rs u m h bd response = Inl (Exn kind (exchange_id @ '' '' @ bd))"
    if "response = JObj fs" "lookup fs ''errorCode'' = JStr ec" "map_of exceptions ec = Some kind"
    for fs ec kind
    using that exceptions_in_table [of ec kind]
    by (simp add: handleErrors_def safeString_def to_string_def exceptions_get_def throw_new_def)
  have other: "handleErrors b c rs u m h bd response
      = (if ok then Inr () else Inl (Exn ExchangeError (exchange_id @ '' '' @ bd)))"
    if "response = JObj fs" "lookup fs ''success'' = JBool ok"
      "lookup fs ''errorCode'' = JUndefined
       \<or> (\<exists>ec. lookup fs ''errorCode'' = JStr ec \<and> map_of exceptions ec = None
             \<and> ec \<notin> set object_prototype_names)"
    for fs ok
    using that undefined_not_in
    by (auto simp add: handleErrors_def safeString_def safeValue_def to_string_def
        exceptions_in_other)
  from skip known other show ?thesis by blast
qed

lemma handleErrors_examples:
  "handleErrors sample_base 400 ''Bad Request'' ''https://api.stronghold.co/v1/venues'' ''GET''
      JUndefined ''{}''
      (JObj [(''success'', JBool False), (''errorCode'', JStr ''INSUFFICIENT_FUNDS'')])
    = Inl (Exn InsufficientFunds ''stronghold {}'')
   \<and> handleErrors sample_base 400 ''Bad Request'' ''https://api.stronghold.co/v1/venues'' ''GET''
      JUndefined ''{}''
      (JObj [(''success'', JBool False), (''errorCode'', JStr ''UNKNOWN_X'')])
    = Inl (Exn ExchangeError ''stronghold {}'')
   \<and> handleErrors sample_base 400 ''Bad Request'' ''https://api.stronghold.co/v1/venues'' ''GET''
      JUndefined ''{}''
      (JObj [(''success'', JBool False)])
    = Inl (Exn ExchangeError ''stronghold {}'')
   \<and> handleErrors sample_base 200 ''OK'' ''https://api.stronghold.co/v1/venues'' ''GET''
      JUndefined ''{}''
      (JObj [(''success'', JBool True), (''statusCode'', JNum (Fin 200)), (''result'', JArr [])])
    = Inr ()
   \<and> handleErrors sample_base 200 ''OK'' ''https://api.stronghold.co/v1/venues'' ''GET''
      JUndefined [] JUndefined
    = Inr ()"
  by (simp add: handleErrors_def safeString_def safeValue_def to_string_def exceptions_in_def
      exceptions_get_def throw_new_def exceptions_def object_prototype_names_def exchange_id_def)

text \<open>
  Claim C2. The classifier throws the class of a code of the table whatever the success
  flag is, and for any other code throws the generic error exactly when the flag is
  false and returns otherwise. \<^verbatim>\<open>handleErrors\<close> does not do so for a code that is a
  name every object inherits: \<^verbatim>\<open>errorCode in this.exceptions\<close> holds of it, so for
  \<^verbatim>\<open>{success: true, errorCode: 'toString'}\<close> it throws a \<open>TypeError\<close> where it should
  return, and for \<^verbatim>\<open>{success: false, errorCode: 'constructor'}\<close> it throws a String
  object where it should throw \<open>ExchangeError\<close>.
\<close>

theorem handleErrors_inherited_name:
  "handleErrors sample_base 200 ''OK'' ''https://api.stronghold.co/v1/venues'' ''GET''
      JUndefined ''{}''
      (JObj [(''success'', JBool True), (''statusCode'', JNum (Fin 200)),
             (''errorCode'', JStr ''toString''), (''result'', JArr [])])
    = Inl (Exn TypeError ''Exception is not a constructor'')
   \<and> handleErrors sample_base 400 ''Bad Request'' ''https://api.stronghold.co/v1/venues'' ''GET''
      JUndefined ''{}''
      (JObj [(''success'', JBool False), (''errorCode'', JStr ''constructor'')])
    = Inl (Exn StringObject ''stronghold {}'')
   \<and> map_of exceptions ''toString'' = None
   \<and> map_of exceptions ''constructor'' = None"
  by (simp add: handleErrors_def safeString_def safeValue_def to_string_def exceptions_in_def
      exceptions_get_def throw_new_def exceptions_def object_prototype_names_def exchange_id_def)

subsection \<open>parseTrade on the public tuple\<close>

text \<open>
  Claim C3. On the tuple \<^verbatim>\<open>['0.03177000', '0.0643501', 'sell', '2019-01-27T23:02:04Z']\<close>
  \<^verbatim>\<open>parseTrade\<close> yields the price 0.03177, the amount 0.0643501, the timestamp parsed
  from the fourth element, and no id, order or maker/taker flag. The side is not the
  string \<^verbatim>\<open>'sell'\<close>: the tuple branch reads it with \<^verbatim>\<open>parseFloat\<close>, which gives
  \<open>NaN\<close>, where the object branch reads it with \<^verbatim>\<open>safeString\<close>.
\<close>

theorem parseTrade_tuple_side:
  "parseTrade b ex
     (JArr [JStr ''0.03177000'', JStr ''0.0643501'', JStr ''sell'', JStr ''2019-01-27T23:02:04Z''])
     JUndefined
   = Inr (JObj
       [(''id'', JUndefined),
        (''info'',
           JArr [JStr ''0.03177000'', JStr ''0.0643501'', JStr ''sell'',
                 JStr ''2019-01-27T23:02:04Z'']),
        (''timestamp'', parse8601 b (JStr ''2019-01-27T23:02:04Z'')),
        (''datetime'', iso8601 b (parse8601 b (JStr ''2019-01-27T23:02:04Z''))),
        (''symbol'', JUndefined),
        (''type'', JUndefined),
        (''order'', JUndefined),
        (''side'', JNum NaN),
        (''price'', JNum (Fin (3177 / 100000))),
        (''amount'', JNum (Fin (643501 / 10000000))),
        (''cost'', JUndefined),
        (''takerOrMaker'', JUndefined),
        (''fee'',
           JObj [(''cost'', JUndefined), (''currency'', JUndefined), (''rate'', JUndefined)])])"
  by (simp add: parseTrade_def trade_record_def js_nth_def Let_def parse_simps)

text \<open>The object branch, on the private trade of the specification's examples.\<close>

lemma parseTrade_object_sample:
  "parseTrade sample_base sample_exchange
     (JObj [(''id'', JStr ''t1''), (''orderId'', JStr ''o1''), (''marketId'', JStr ''XLMUSD''),
            (''side'', JStr ''sell''), (''size'', JStr ''1.0000000''),
            (''price'', JStr ''0.10440600''), (''maker'', JBool False),
            (''executedAt'', JStr ''2019-02-01T18:44:21Z'')])
     JUndefined
   = Inr (JObj
       [(''id'', JStr ''t1''),
        (''info'',
           JObj [(''id'', JStr ''t1''), (''orderId'', JStr ''o1''), (''marketId'', JStr ''XLMUSD''),
                 (''side'', JStr ''sell''), (''size'', JStr ''1.0000000''),
                 (''price'', JStr ''0.10440600''), (''maker'', JBool False),
                 (''executedAt'', JStr ''2019-02-01T18:44:21Z'')]),
        (''timestamp'', JNum (Fin 1549046661000)),
        (''datetime'', JStr ''2019-02-01T18:44:21Z''),
        (''symbol'', JStr ''XLM/USD''),
        (''type'', JUndefined),
        (''order'', JStr ''o1''),
        (''side'', JStr ''sell''),
        (''price'', JNum (Fin (52203 / 500000))),
        (''amount'', JNum (Fin 1)),
        (''cost'', JUndefined),
        (''takerOrMaker'', JStr ''taker''),
        (''fee'',
           JObj [(''cost'', JUndefined), (''currency'', JUndefined), (''rate'', JUndefined)])])"
  by (simp add: parseTrade_def trade_record_def safeFloat_def safeString_def safeValue_def
      to_string_def sample_simps parse_simps)

subsection \<open>sign: where the query goes\<close>

lemma sign_non_get:
  assumes "m \<noteq> ''GET''" and "sign b ex path api m params hdrs bd = Inr r"
  shows "body r = bd \<and> url r = api_url api @ ''/'' @ version @ ''/'' @ implodeParams b path params"
  using assms
  by (auto simp add: sign_def Let_def split: if_splits option.splits)

lemma sign_get:
  assumes "sign b ex path api ''GET'' params hdrs bd = Inr r"
  shows "(omit b params (extractParams b path) \<noteq> [] \<longrightarrow>
            body r = bd
            \<and> url r = api_url api @ ''/'' @ version @ ''/'' @ implodeParams b path params
                 @ ''?'' @ urlencode b (omit b params (extractParams b path)))
       \<and> (omit b params (extractParams b path) = [] \<longrightarrow>
            body r = Some (json b [])
            \<and> url r = api_url api @ ''/'' @ version @ ''/'' @ implodeParams b path params)"
  using assms
  by (auto simp add: sign_def Let_def split: if_splits option.splits)

text \<open>
  Claim C4. A \<^verbatim>\<open>GET\<close> request with a non-empty query has the query in its URL and
  keeps the body it was given, and a \<^verbatim>\<open>GET\<close> request with an empty query carries
  the JSON of the query as its body (\<open>sign_get\<close>). A request that is not a \<^verbatim>\<open>GET\<close>
  does not carry the query as a JSON body: its body is the one it was given and the
  query is nowhere in it (\<open>sign_non_get\<close>). Here \<^verbatim>\<open>createOrder\<close>'s \<^verbatim>\<open>POST\<close> with
  the order's type, side, size and price is signed and returned without a body.
\<close>

theorem sign_post_without_body:
  "sign sample_base sample_exchange ''venues/{venueId}/accounts/{accountId}/orders''
      ''private'' ''POST''
      [(''venueId'', JStr ''trade-public''), (''accountId'', JStr ''acc-1''),
       (''marketID'', JStr ''XLMUSD''), (''type'', JStr ''limit''), (''side'', JStr ''buy''),
       (''size'', JStr ''10''), (''price'', JStr ''0.1'')] JUndefined None
   = Inr \<lparr>url = ''https://api.stronghold.co/v1/venues/trade-public/accounts/acc-1/orders'',
          http_method = ''POST'', body = None,
          headers = JObj
            [(''SH-CRED-ID'', JStr ''key-1''),
             (''SH-CRED-SIG'', JStr
                ''hmac-sha256-base64(c2VjcmV0,1548630124POST/v1/venues/trade-public/accounts/acc-1/orders)''),
             (''SH-CRED-TIME'', JStr ''1548630124''),
             (''SH-CRED-PASS'', JStr ''passphrase''),
             (''Content-Type'', JStr ''application/json'')]\<rparr>"
  by (simp add: sign_def sample_simps)

subsection \<open>fetchCurrencies\<close>

lemma lookup_assign_other: "k' \<noteq> k \<Longrightarrow> lookup (assign fs k v) k' = lookup fs k'"
  by (induction fs) auto

lemma fetchCurrencies_entry_sample:
  "fetchCurrencies_entry sample_base
     (JObj [(''id'', JStr ''XLM/native''), (''alias'', JStr []), (''code'', JStr ''XLM''),
            (''name'', JStr []), (''displayDecimalsFull'', JNum (Fin 7)),
            (''displayDecimalsSignificant'', JNum (Fin 2))])
   = (JStr ''XLM'',
      JObj [(''code'', JStr ''XLM''), (''id'', JStr ''XLM''), (''precision'', JNum (Fin 7)),
            (''info'',
               JObj [(''id'', JStr ''XLM/native''), (''alias'', JStr []), (''code'', JStr ''XLM''),
                     (''name'', JStr []), (''displayDecimalsFull'', JNum (Fin 7)),
                     (''displayDecimalsSignificant'', JNum (Fin 2))])])"
  by (simp add: fetchCurrencies_entry_def safeString_def to_string_def sample_simps)

text \<open>
  Claim C5, as stated: the code of a currency is the normalization of the leading
  segment of the entry's \<^verbatim>\<open>id\<close>. It fails on an entry whose \<^verbatim>\<open>code\<close> field is not
  that segment: the id is \<^verbatim>\<open>'XLM/native'\<close>, the code field \<^verbatim>\<open>'LUMEN'\<close>.
\<close>

theorem fetchCurrencies_code_counterexample:
  "fst (fetchCurrencies_entry sample_base
          (JObj [(''id'', JStr ''XLM/native''), (''alias'', JStr []), (''code'', JStr ''LUMEN''),
                 (''name'', JStr []), (''displayDecimalsFull'', JNum (Fin 7)),
                 (''displayDecimalsSignificant'', JNum (Fin 2))]))
   \<noteq> commonCurrencyCode sample_base (JStr (leading_segment ''XLM/native''))"
  by (simp add: fetchCurrencies_entry_def safeString_def to_string_def leading_segment_def
      sample_simps)

text \<open>
  Claim C5, amended. The code of a currency is the normalization of the entry's
  \<^verbatim>\<open>code\<close> field (for the entry with id \<^verbatim>\<open>'XLM/native'\<close> and code \<^verbatim>\<open>'XLM'\<close> it is
  derived from \<^verbatim>\<open>'XLM'\<close>); the entry's \<^verbatim>\<open>id\<close> is not consulted, so that changing it
  does not change the code. The precision is read from \<^verbatim>\<open>displayDecimalsFull\<close>.
\<close>

theorem fetchCurrencies_entry_code:
  "(fetchCurrencies_entry b entry = (code, currency) \<longrightarrow>
      code = commonCurrencyCode b (safeString b entry ''code'')
      \<and> field_of currency ''code'' = code
      \<and> field_of currency ''precision'' = safeInteger b entry ''displayDecimalsFull''
      \<and> (\<forall>c. field_of entry ''code'' = JStr c \<longrightarrow> code = commonCurrencyCode b (JStr c)))
   \<and> fst (fetchCurrencies_entry b (JObj (assign fs ''id'' v)))
       = fst (fetchCurrencies_entry b (JObj fs))"
  by (auto simp add: fetchCurrencies_entry_def safeString_def to_string_def Let_def
      lookup_assign_other)

theorem fetchCurrencies_entry_code_witness:
  "fetchCurrencies_entry sample_base
     (JObj [(''id'', JStr ''XLM/native''), (''alias'', JStr []), (''code'', JStr ''XLM''),
            (''name'', JStr []), (''displayDecimalsFull'', JNum (Fin 7)),
            (''displayDecimalsSignificant'', JNum (Fin 2))])
   = (JStr ''XLM'',
      JObj [(''code'', JStr ''XLM''), (''id'', JStr ''XLM''), (''precision'', JNum (Fin 7)),
            (''info'',
               JObj [(''id'', JStr ''XLM/native''), (''alias'', JStr []), (''code'', JStr ''XLM''),
                     (''name'', JStr []), (''displayDecimalsFull'', JNum (Fin 7)),
                     (''displayDecimalsSignificant'', JNum (Fin 2))])])
   \<and> JStr ''XLM'' = commonCurrencyCode sample_base (JStr ''XLM'')
   \<and> JNum (Fin 7) = safeInteger sample_base
        (JObj [(''id'', JStr ''XLM/native''), (''alias'', JStr []), (''code'', JStr ''XLM''),
               (''name'', JStr []), (''displayDecimalsFull'', JNum (Fin 7)),
               (''displayDecimalsSignificant'', JNum (Fin 2))])
        ''displayDecimalsFull''"
  using fetchCurrencies_entry_code [of sample_base
      "JObj [(''id'', JStr ''XLM/native''), (''alias'', JStr []), (''code'', JStr ''XLM''),
            (''name'', JStr []), (''displayDecimalsFull'', JNum (Fin 7)),
            (''displayDecimalsSignificant'', JNum (Fin 2))]"
      "JStr ''XLM''"
      "JObj [(''code'', JStr ''XLM''), (''id'', JStr ''XLM''), (''precision'', JNum (Fin 7)),
            (''info'',
               JObj [(''id'', JStr ''XLM/native''), (''alias'', JStr []), (''code'', JStr ''XLM''),
                     (''name'', JStr []), (''displayDecimalsFull'', JNum (Fin 7)),
                     (''displayDecimalsSignificant'', JNum (Fin 2))])]"]
    fetchCurrencies_entry_sample
  by (simp add: sample_simps)

text \<open>Every currency that the loop of \<^verbatim>\<open>fetchCurrencies\<close> stores is the record of an
  entry, stored under the key its code converts to.\<close>

lemma fetchCurrencies_loop_entries:
  "\<forall>kv \<in> set (fetchCurrencies_loop b data result).
      kv \<in> set result
      \<or> (\<exists>entry \<in> set data.
            kv = (to_string b (fst (fetchCurrencies_entry b entry)),
                  snd (fetchCurrencies_entry b entry)))"
proof (induction data arbitrary: result)
  case Nil
  then show ?case by simp
next
  case (Cons entry data)
  show ?case
  proof
    fix kv
    assume "kv \<in> set (fetchCurrencies_loop b (entry # data) result)"
    then have "kv \<in> set (fetchCurrencies_loop b data
        (assign result (to_string b (fst (fetchCurrencies_entry b entry)))
           (snd (fetchCurrencies_entry b entry))))"
      by (simp add: case_prod_beta)
    with Cons.IH have
      "kv \<in> set (assign result (to_string b (fst (fetchCurrencies_entry b entry)))
           (snd (fetchCurrencies_entry b entry)))
       \<or> (\<exists>e \<in> set data.
            kv = (to_string b (fst (fetchCurrencies_entry b e)), snd (fetchCurrencies_entry b e)))"
      by blast
    then show "kv \<in> set result
      \<or> (\<exists>e \<in> set (entry # data).
            kv = (to_string b (fst (fetchCurrencies_entry b e)), snd (fetchCurrencies_entry b e)))"
      using assign_values [of "fst kv" "snd kv" result]
      by auto
  qed
qed

subsection \<open>setSandboxMode\<close>

text \<open>
  Claim C9. \<^verbatim>\<open>setSandboxMode\<close> never changes \<^verbatim>\<open>options['venueId']\<close>, the venue that
  requests read: enabling the sandbox on the options of \<^verbatim>\<open>describe ()\<close> leaves it at
  \<^verbatim>\<open>'trade-public'\<close>, and stores \<^verbatim>\<open>undefined\<close> under the names \<^verbatim>\<open>'backup'\<close> and
  \<^verbatim>\<open>'main'\<close> of the venue list, which has no \<^verbatim>\<open>'main'\<close> and no \<^verbatim>\<open>'sandbox'\<close>.
\<close>

theorem setSandboxMode_keeps_venueId:
  "fetchMarkets_request (setSandboxMode enabled ex) = fetchMarkets_request ex
   \<and> fetchMarkets_request (setSandboxMode (JBool True) sample_exchange)
       = [(''venueId'', JStr ''trade-public'')]
   \<and> named (venues (options (setSandboxMode (JBool True) sample_exchange)))
       = [(''backup'', JUndefined), (''main'', JUndefined)]
   \<and> fetchMarkets_request
        (setSandboxMode (JBool False) (setSandboxMode (JBool True) sample_exchange))
       = [(''venueId'', JStr ''trade-public'')]"
  by (simp add: setSandboxMode_def fetchMarkets_request_def array_set_def array_get_def
      array_has_def sample_simps)

text \<open>What the toggle does do: after enabling and disabling, \<^verbatim>\<open>venues['main']\<close> reads
  as it did before.\<close>

lemma lookup_assign_same: "lookup (assign fs k v) k = v"
  by (induction fs) auto

lemma assign_keys: "fst ` set (assign fs k v) = insert k (fst ` set fs)"
proof (induction fs)
  case Nil
  show ?case by simp
next
  case (Cons kv fs)
  obtain k' v' where kv: "kv = (k', v')" by (cases kv)
  show ?case
  proof (cases "k' = k")
    case True
    with kv show ?thesis by simp
  next
    case False
    with kv Cons.IH show ?thesis by auto
  qed
qed

lemma setSandboxMode_round_trip:
  "array_get (venues (options (setSandboxMode (JBool False) (setSandboxMode (JBool True) ex))))
     ''main''
   = array_get (venues (options ex)) ''main''"
  by (simp add: setSandboxMode_def array_set_def array_get_def array_has_def Let_def
      lookup_assign_same lookup_assign_other assign_keys)

end
